theory Spec2Isabelle
  imports Main "HOL-Library.AList" "HOL-Library.Char_ord" "HOL-Library.List_Lexorder"
begin

section \<open>Data model\<close>

text \<open>
  The dataclass \<open>DrawRecord\<close> of \<open>scripts/fetch_ssq.py\<close>: nine string fields.
  A Python \<open>str\<close> is modelled as a \<open>string\<close>, each \<open>char\<close> read as one code point
  below 256. The order on \<open>string\<close> is the lexicographic order of the code points
  (a proper prefix is smaller), which is how Python compares \<open>str\<close> values.
\<close>

record DrawRecord =
  issue :: string
  red1 :: string
  red2 :: string
  red3 :: string
  red4 :: string
  red5 :: string
  red6 :: string
  blue :: string
  date :: string

text \<open>The exceptions (subclasses of \<open>Exception\<close>) that the modelled code can meet.\<close>

datatype py_exn =
    AttributeError
  | TypeError
  | KeyError
  | IndexError
  | URLError
  | FileNotFoundError
  | PermissionError

section \<open>Merger: \<open>dedupe_and_sort\<close>\<close>

text \<open>
  A Python \<open>dict\<close> keeps its keys in insertion order and an assignment to a key that is
  present replaces the value in place: an association list with \<open>AList.update\<close>.
\<close>

type_synonym by_issue_dict = "(string \<times> DrawRecord) list"

text \<open>
  The loop \<^verbatim>\<open>for r in records: if not r.issue: continue; by_issue[r.issue] = r\<close>.
\<close>

fun by_issue_loop :: "DrawRecord list \<Rightarrow> by_issue_dict \<Rightarrow> by_issue_dict" where
  "by_issue_loop [] by_issue = by_issue"
| "by_issue_loop (r # records) by_issue =
     (if issue r = [] then by_issue_loop records by_issue
      else by_issue_loop records (AList.update (issue r) r by_issue))"

text \<open>
  The comprehension \<^verbatim>\<open>[by_issue[k] for k in ks]\<close>; a subscript with a missing key
  raises \<open>KeyError\<close>.
\<close>

fun getitems :: "by_issue_dict \<Rightarrow> string list \<Rightarrow> py_exn + DrawRecord list" where
  "getitems by_issue [] = Inr []"
| "getitems by_issue (k # ks) =
     (case map_of by_issue k of
        None \<Rightarrow> Inl KeyError
      | Some r \<Rightarrow>
          (case getitems by_issue ks of
             Inl e \<Rightarrow> Inl e
           | Inr rs \<Rightarrow> Inr (r # rs)))"

definition dedupe_and_sort :: "DrawRecord list \<Rightarrow> py_exn + DrawRecord list" where
  "dedupe_and_sort records =
     (let by_issue = by_issue_loop records []
      in getitems by_issue (sort (map fst by_issue)))"

text \<open>The list the merger returns, once it is known that no subscript fails.\<close>

definition merged :: "DrawRecord list \<Rightarrow> DrawRecord list" where
  "merged records =
     (let by_issue = by_issue_loop records []
      in map (\<lambda>k. the (map_of by_issue k)) (sort (map fst by_issue)))"

section \<open>Python strings\<close>

text \<open>
  \<open>str.strip()\<close> removes the characters for which \<open>str.isspace\<close> holds from both ends.
  Below code point 256 these are 9 to 13, 28 to 32, 133 and 160.
\<close>

definition is_space :: "char \<Rightarrow> bool" where
  "is_space c \<longleftrightarrow>
     c \<in> set [CHR 0x09, CHR 0x0A, CHR 0x0B, CHR 0x0C, CHR 0x0D, CHR 0x1C, CHR 0x1D, CHR 0x1E,
               CHR 0x1F, CHR 0x20, CHR 0x85, CHR 0xA0]"

definition strip :: "string \<Rightarrow> string" where
  "strip s = rev (dropWhile is_space (rev (dropWhile is_space s)))"

text \<open>The class \<^verbatim>\<open>\d\<close> of \<open>re\<close>: below code point 256 the ten ASCII digits.\<close>

definition is_digit :: "char \<Rightarrow> bool" where
  "is_digit c \<longleftrightarrow> c \<in> set ''0123456789''"

text \<open>\<^verbatim>\<open>re.fullmatch(r"\d+", s)\<close> and \<^verbatim>\<open>re.fullmatch(r"\d{1,2}", s)\<close>.\<close>

definition fullmatch_digits :: "string \<Rightarrow> bool" where
  "fullmatch_digits s \<longleftrightarrow> s \<noteq> [] \<and> list_all is_digit s"

definition fullmatch_digits12 :: "string \<Rightarrow> bool" where
  "fullmatch_digits12 s \<longleftrightarrow> (length s = 1 \<or> length s = 2) \<and> list_all is_digit s"

text \<open>
  \<open>int(s)\<close> on a string of ASCII digits (the code calls it only after
  \<^verbatim>\<open>\d{1,2}\<close> has matched), and the decimal numeral of a natural number.
\<close>

definition digit_value :: "char \<Rightarrow> nat" where
  "digit_value c = (of_char c :: nat) - 48"

definition py_int :: "string \<Rightarrow> nat" where
  "py_int s = foldl (\<lambda>n c. 10 * n + digit_value c) 0 s"

definition digit_char :: "nat \<Rightarrow> char" where
  "digit_char d = char_of (48 + d)"

function str_nat :: "nat \<Rightarrow> string" where
  "str_nat n = (if n < 10 then [digit_char n] else str_nat (n div 10) @ [digit_char (n mod 10)])"
  by pat_completeness auto
termination
  by (relation "measure (\<lambda>n. n)") auto

text \<open>The format \<^verbatim>\<open>f"{n:02d}"\<close> for \<open>n \<ge> 0\<close>: zeros on the left up to width 2.\<close>

definition format_02d :: "nat \<Rightarrow> string" where
  "format_02d n = (let s = str_nat n in if length s < 2 then replicate (2 - length s) CHR ''0'' @ s else s)"

text \<open>
  The two-digit zero-padded form of a cell of one or two digits, as the specification
  words it: a zero in front of a single digit.
\<close>

definition padded :: "string \<Rightarrow> string" where
  "padded s = (if length s = 1 then CHR ''0'' # s else s)"

text \<open>
  \<^verbatim>\<open>re.split(r"[...]", s)\<close> for a class of single characters: the pieces between the
  delimiters, empty pieces included.
\<close>

fun py_split :: "(char \<Rightarrow> bool) \<Rightarrow> string \<Rightarrow> string list" where
  "py_split d [] = [[]]"
| "py_split d (c # cs) =
     (if d c then [] # py_split d cs
      else (case py_split d cs of
              [] \<Rightarrow> [[c]]
            | w # ws \<Rightarrow> (c # w) # ws))"

text \<open>
  Matching under \<open>re.IGNORECASE\<close> against a pattern of ASCII characters: below code
  point 256 only the two ASCII cases of a letter match it. Patterns are given in lower case.
\<close>

definition ascii_lower :: "char \<Rightarrow> char" where
  "ascii_lower c =
     (if CHR ''A'' \<le> c \<and> c \<le> CHR ''Z'' then char_of ((of_char c :: nat) + 32) else c)"

definition starts_with :: "string \<Rightarrow> string \<Rightarrow> bool" where
  "starts_with p s \<longleftrightarrow> take (length p) s = p"

fun starts_with_ci :: "string \<Rightarrow> string \<Rightarrow> bool" where
  "starts_with_ci [] s = True"
| "starts_with_ci (p # ps) [] = False"
| "starts_with_ci (p # ps) (c # cs) = (if ascii_lower c = p then starts_with_ci ps cs else False)"

text \<open>The text before the first \<open>>\<close> and the text after it.\<close>

fun split_at_gt :: "string \<Rightarrow> (string \<times> string) option" where
  "split_at_gt [] = None"
| "split_at_gt (c # cs) =
     (if c = CHR ''>'' then Some ([], cs)
      else map_option (\<lambda>(a, b). (c # a, b)) (split_at_gt cs))"

text \<open>The text before the first occurrence of \<open>p\<close>, case ignored, and the text after it.\<close>

fun split_at_ci :: "string \<Rightarrow> string \<Rightarrow> (string \<times> string) option" where
  "split_at_ci p [] = None"
| "split_at_ci p (c # cs) =
     (if starts_with_ci p (c # cs) then Some ([], drop (length p) (c # cs))
      else map_option (\<lambda>(a, b). (c # a, b)) (split_at_ci p cs))"

definition contains_ci :: "string \<Rightarrow> string \<Rightarrow> bool" where
  "contains_ci p s \<longleftrightarrow> list_ex (\<lambda>i. starts_with_ci p (drop i s)) [0..<Suc (length s)]"

lemma split_at_gt_length: "split_at_gt s = Some (a, b) \<Longrightarrow> length b < length s"
  by (induction s arbitrary: a) (auto split: if_splits)

lemma split_at_ci_length: "split_at_ci p s = Some (a, b) \<Longrightarrow> length b \<le> length s"
  by (induction s arbitrary: a) (auto split: if_splits)

section \<open>Table-Source\<close>

subsection \<open>\<open>_strip_tags\<close>\<close>

text \<open>
  \<^verbatim>\<open>re.sub(r"<[^>]+>", "", s)\<close>: at a \<open><\<close> followed by at least one character other
  than \<open>>\<close> and then a \<open>>\<close>, the whole tag is dropped and the scan goes on behind it;
  everywhere else the character is kept.
\<close>

function sub_tags :: "string \<Rightarrow> string" where
  "sub_tags [] = []"
| "sub_tags (c # cs) =
     (if c = CHR ''<'' then
        (case split_at_gt cs of
           None \<Rightarrow> c # sub_tags cs
         | Some (inner, rest) \<Rightarrow> if inner \<noteq> [] then sub_tags rest else c # sub_tags cs)
      else c # sub_tags cs)"
  by pat_completeness auto
termination
  by (relation "measure length") (auto dest: split_at_gt_length)

text \<open>\<^verbatim>\<open>text.replace("&nbsp;", " ")\<close>.\<close>

function replace_nbsp :: "string \<Rightarrow> string" where
  "replace_nbsp [] = []"
| "replace_nbsp (c # cs) =
     (if starts_with ''&nbsp;'' (c # cs) then CHR '' '' # replace_nbsp (drop 5 cs)
      else c # replace_nbsp cs)"
  by pat_completeness auto
termination
  by (relation "measure length") auto

definition strip_tags :: "string \<Rightarrow> string" where
  "strip_tags html_snippet = strip (replace_nbsp (sub_tags html_snippet))"

subsection \<open>The regular expressions of the fallback parser\<close>

text \<open>
  \<^verbatim>\<open><NAME[^>]*>([\s\S]*?)</NAME>\<close> under \<open>re.IGNORECASE\<close>, tried at the head of \<open>s\<close>:
  the opening tag runs to the first \<open>>\<close>, the lazy group to the first closing tag behind
  it. The result is group 1 and the text behind the match.
\<close>

definition match_element :: "string \<Rightarrow> string \<Rightarrow> (string \<times> string) option" where
  "match_element nm s =
     (if starts_with_ci (CHR ''<'' # nm) s then
        (case split_at_gt (drop (Suc (length nm)) s) of
           None \<Rightarrow> None
         | Some (attrs, after_open) \<Rightarrow> split_at_ci (''</'' @ nm @ ''>'') after_open)
      else None)"

lemma match_element_length: "match_element nm s = Some (body, rest) \<Longrightarrow> length rest < length s"
proof -
  assume m: "match_element nm s = Some (body, rest)"
  then obtain attrs after_open where
    a: "split_at_gt (drop (Suc (length nm)) s) = Some (attrs, after_open)" and
    b: "split_at_ci (''</'' @ nm @ ''>'') after_open = Some (body, rest)"
    by (auto simp: match_element_def split: if_splits option.splits)
  from a have "length after_open < length (drop (Suc (length nm)) s)" by (rule split_at_gt_length)
  moreover from b have "length rest \<le> length after_open" by (rule split_at_ci_length)
  ultimately show ?thesis by simp
qed

text \<open>\<open>re.finditer\<close> with that pattern: group 1 of every match, from left to right.\<close>

function finditer_element :: "string \<Rightarrow> string \<Rightarrow> string list" where
  "finditer_element nm [] = []"
| "finditer_element nm (c # cs) =
     (case match_element nm (c # cs) of
        None \<Rightarrow> finditer_element nm cs
      | Some (body, rest) \<Rightarrow> body # finditer_element nm rest)"
  by pat_completeness auto
termination
  by (relation "measure (\<lambda>(nm, s). length s)") (auto dest: match_element_length)

text \<open>
  \<^verbatim>\<open><table[^>]*id="tdata"[^>]*>([\s\S]*?)</table>\<close> under \<open>re.IGNORECASE\<close>, tried at the
  head of \<open>s\<close>: no part of the opening tag may contain \<open>>\<close>, so the tag ends at the first
  \<open>>\<close> and the attribute must stand before it.
\<close>

definition match_tdata_table :: "string \<Rightarrow> string option" where
  \<open>match_tdata_table s =
     (if starts_with_ci ''<table'' s then
        (case split_at_gt (drop 6 s) of
           None \<Rightarrow> None
         | Some (attrs, after_open) \<Rightarrow>
             if contains_ci ''id="tdata"'' attrs
             then map_option fst (split_at_ci ''</table>'' after_open)
             else None)
      else None)\<close>

text \<open>\<open>re.search\<close>: the match at the leftmost position that has one.\<close>

fun search_tdata_table :: "string \<Rightarrow> string option" where
  "search_tdata_table [] = None"
| "search_tdata_table (c # cs) =
     (case match_tdata_table (c # cs) of
        Some table_html \<Rightarrow> Some table_html
      | None \<Rightarrow> search_tdata_table cs)"

subsection \<open>\<open>parse_500_history_html_regex\<close>\<close>

text \<open>The body of the loop over the rows, from the cell values of one row.\<close>

definition regex_row_record :: "string list \<Rightarrow> DrawRecord option" where
  "regex_row_record td_values =
     (if length td_values < 16 then None
      else
        let issue = td_values ! 0;
            red_nums = take 6 (drop 1 td_values);
            blue = (if length td_values > 7 then td_values ! 7 else []);
            date_text = (if length td_values > 15 then td_values ! 15 else [])
        in
          if \<not> (fullmatch_digits issue \<and> length red_nums = 6 \<and>
                 list_all fullmatch_digits12 red_nums \<and> fullmatch_digits12 blue)
          then None
          else Some \<lparr>issue = issue,
                     red1 = format_02d (py_int (red_nums ! 0)),
                     red2 = format_02d (py_int (red_nums ! 1)),
                     red3 = format_02d (py_int (red_nums ! 2)),
                     red4 = format_02d (py_int (red_nums ! 3)),
                     red5 = format_02d (py_int (red_nums ! 4)),
                     red6 = format_02d (py_int (red_nums ! 5)),
                     blue = format_02d (py_int blue),
                     date = date_text\<rparr>)"

definition td_values_of :: "string \<Rightarrow> string list" where
  "td_values_of tr_html = map strip_tags (finditer_element ''td'' tr_html)"

definition parse_500_history_html_regex :: "string \<Rightarrow> DrawRecord list" where
  "parse_500_history_html_regex html_text =
     (case search_tdata_table html_text of
        None \<Rightarrow> []
      | Some table_html \<Rightarrow>
          List.map_filter (\<lambda>tr_html. regex_row_record (td_values_of tr_html))
            (finditer_element ''tr'' table_html))"

subsection \<open>\<open>parse_500_history_html\<close>\<close>

text \<open>
  BeautifulSoup is a library outside the repository, so its result is a parameter: for a
  page, \<open>soup.find("table", {"id": "tdata"})\<close> is \<open>None\<close> or a table, the table is the
  list of its rows (\<open>find_all("tr")\<close>), and a row is the list of \<open>get_text(strip=True)\<close>
  of its cells (\<open>find_all("td")\<close>). The argument \<open>bs4\<close> is the module variable
  \<open>BeautifulSoup\<close>, which is \<open>None\<close> when the import failed.
\<close>

type_synonym soup_row = "string list"
type_synonym soup_table = "soup_row list"
type_synonym soup = "string \<Rightarrow> soup_table option"

definition soup_row_record :: "soup_row \<Rightarrow> DrawRecord option" where
  "soup_row_record cells =
     (if cells = [] \<or> length cells < 16 then None
      else
        let issue = cells ! 0;
            red_nums = map (\<lambda>i. cells ! i) [1..<7];
            blue = cells ! 7;
            date_text = cells ! 15
        in
          if issue = [] \<or> blue = [] \<or> \<not> list_all (\<lambda>x. x \<noteq> []) red_nums then None
          else Some \<lparr>issue = issue,
                     red1 = red_nums ! 0,
                     red2 = red_nums ! 1,
                     red3 = red_nums ! 2,
                     red4 = red_nums ! 3,
                     red5 = red_nums ! 4,
                     red6 = red_nums ! 5,
                     blue = blue,
                     date = date_text\<rparr>)"

definition parse_500_history_html :: "soup option \<Rightarrow> string \<Rightarrow> DrawRecord list" where
  "parse_500_history_html bs4 html_text =
     (case bs4 of
        None \<Rightarrow> parse_500_history_html_regex html_text
      | Some soup \<Rightarrow>
          (case soup html_text of
             None \<Rightarrow> []
           | Some table \<Rightarrow> List.map_filter soup_row_record table))"

section \<open>JSON values and the Python operations on them\<close>

text \<open>
  What \<open>json.loads\<close> returns, without floating-point numbers. \<open>truthy\<close> is Python's
  truth value, \<open>py_or\<close> the operator \<open>or\<close>, \<open>py_get\<close> the method call \<open>x.get(k)\<close>
  (only a \<open>dict\<close> has it), \<open>py_iter\<close> the elements a \<open>for\<close> loop visits, and \<open>py_str\<close>
  the built-in \<open>str\<close>, with the \<open>repr\<close> of containers left as a parameter.
\<close>

datatype json =
    JNull
  | JBool bool
  | JInt int
  | JStr string
  | JList "json list"
  | JDict "(string \<times> json) list"

fun truthy :: "json \<Rightarrow> bool" where
  "truthy JNull = False"
| "truthy (JBool b) = b"
| "truthy (JInt n) = (n \<noteq> 0)"
| "truthy (JStr s) = (s \<noteq> [])"
| "truthy (JList xs) = (xs \<noteq> [])"
| "truthy (JDict kvs) = (kvs \<noteq> [])"

definition py_or :: "json \<Rightarrow> json \<Rightarrow> json" where
  "py_or a b = (if truthy a then a else b)"

definition dict_get :: "(string \<times> json) list \<Rightarrow> string \<Rightarrow> json" where
  "dict_get kvs k = (case map_of kvs k of Some v \<Rightarrow> v | None \<Rightarrow> JNull)"

fun py_get :: "json \<Rightarrow> string \<Rightarrow> py_exn + json" where
  "py_get (JDict kvs) k = Inr (dict_get kvs k)"
| "py_get _ k = Inl AttributeError"

fun py_iter :: "json \<Rightarrow> py_exn + json list" where
  "py_iter (JList xs) = Inr xs"
| "py_iter (JStr s) = Inr (map (\<lambda>c. JStr [c]) s)"
| "py_iter (JDict kvs) = Inr (map (\<lambda>kv. JStr (fst kv)) kvs)"
| "py_iter _ = Inl TypeError"

definition str_int :: "int \<Rightarrow> string" where
  "str_int i = (if i < 0 then CHR ''-'' # str_nat (nat (- i)) else str_nat (nat i))"

fun py_str :: "(json \<Rightarrow> string) \<Rightarrow> json \<Rightarrow> string" where
  "py_str repr (JStr s) = s"
| "py_str repr (JInt i) = str_int i"
| "py_str repr (JBool b) = (if b then ''True'' else ''False'')"
| "py_str repr JNull = ''None''"
| "py_str repr v = repr v"

section \<open>The environment of a run\<close>

text \<open>
  Everything the program reads from outside the repository. \<open>requests\<close> and
  \<open>BeautifulSoup\<close> are the two optional imports. \<open>urllib_get\<close> is the outcome of
  \<open>_urllib_get(url, params, force_encoding, extra_headers)\<close> and \<open>client_get_text\<close> that of
  \<open>HttpClient().get_text(url, params, force_encoding)\<close>, retries included: the decoded
  body, or the exception raised. \<open>json_loads\<close> is \<open>json.loads\<close>, \<open>None\<close> when it raises.
  \<open>try_fetch_from_cwl_out\<close> and \<open>fetch_from_cwl_with_urllib_out\<close> are the outcomes of
  \<open>HttpClient()\<close> with \<open>try_fetch_from_cwl(client, max_pages)\<close> and of
  \<open>fetch_from_cwl_with_urllib(issue_count)\<close>: the records returned, or the exception raised.
  The statements about \<open>main\<close> hold for every such outcome, so these two fetchers are not
  unfolded further. \<open>makedirs\<close> is
  \<open>os.makedirs(path, exist_ok=True)\<close> and \<open>write_csv\<close> the writing of the rows to the
  opened file, each \<open>None\<close> on success or the exception raised.
\<close>

type_synonym params = "(string \<times> string) list"

record world =
  requests :: bool
  BeautifulSoup :: "soup option"
  urllib_get :: "string \<Rightarrow> params \<Rightarrow> string option \<Rightarrow> params \<Rightarrow> py_exn + string"
  client_get_text :: "string \<Rightarrow> params \<Rightarrow> string option \<Rightarrow> py_exn + string"
  json_loads :: "string \<Rightarrow> json option"
  py_repr :: "json \<Rightarrow> string"
  try_fetch_from_cwl_out :: "int \<Rightarrow> py_exn + DrawRecord list"
  fetch_from_cwl_with_urllib_out :: "int \<Rightarrow> py_exn + DrawRecord list"
  makedirs :: "string \<Rightarrow> py_exn option"
  write_csv :: "string \<Rightarrow> string list list \<Rightarrow> py_exn option"

section \<open>Table-Source fetchers\<close>

definition url_500 :: string where
  "url_500 = ''https://datachart.500.com/ssq/history/newinc/history.php''"

definition fetch_from_500_with_requests :: "world \<Rightarrow> string \<Rightarrow> string \<Rightarrow> py_exn + DrawRecord list" where
  "fetch_from_500_with_requests w start_issue end_issue =
     (case client_get_text w url_500 [(''start'', start_issue), (''end'', end_issue)] (Some ''gb18030'') of
        Inl e \<Rightarrow> Inl e
      | Inr text \<Rightarrow> Inr (parse_500_history_html (BeautifulSoup w) text))"

definition fetch_from_500_with_urllib :: "world \<Rightarrow> string \<Rightarrow> string \<Rightarrow> py_exn + DrawRecord list" where
  "fetch_from_500_with_urllib w start_issue end_issue =
     (case urllib_get w url_500 [(''start'', start_issue), (''end'', end_issue)] (Some ''gb18030'')
             [(''Referer'', url_500)] of
        Inl e \<Rightarrow> Inl e
      | Inr text \<Rightarrow> Inr (parse_500_history_html (BeautifulSoup w) text))"

section \<open>PagedJSON-Source: \<open>fetch_from_sporttery_with_urllib\<close>\<close>

definition is_result_delim :: "char \<Rightarrow> bool" where
  "is_result_delim c \<longleftrightarrow> c \<in> set '' ,;+''"

text \<open>\<^verbatim>\<open>[n for n in re.split(r"[ ,;+]", code) if n]\<close>.\<close>

definition result_tokens :: "string \<Rightarrow> string list" where
  "result_tokens code = filter (\<lambda>n. n \<noteq> []) (py_split is_result_delim code)"

text \<open>
  The body of the loop over the items of a page: \<open>Inr None\<close> where the item is skipped,
  \<open>Inr (Some r)\<close> where \<open>r\<close> is appended, \<open>Inl e\<close> where a method call raises.
\<close>

definition sporttery_item :: "(json \<Rightarrow> string) \<Rightarrow> json \<Rightarrow> py_exn + DrawRecord option" where
  "sporttery_item repr it =
     (case it of
        JDict kvs \<Rightarrow>
          (let issue = py_str repr (py_or (dict_get kvs ''lotteryDrawNum'')
                                     (py_or (dict_get kvs ''issue'') (JStr [])))
           in case py_or (dict_get kvs ''lotteryDrawResult'') (JStr []) of
                JStr s \<Rightarrow>
                  (let code = strip s;
                       open_time = py_str repr (py_or (dict_get kvs ''lotteryDrawTime'')
                                                  (py_or (dict_get kvs ''date'') (JStr [])))
                   in if issue = [] \<or> code = [] then Inr None
                      else
                        (let nums = result_tokens code
                         in if length nums \<ge> 7 then
                              (let red = take 6 nums; blue = nums ! 6
                               in Inr (Some \<lparr>issue = issue,
                                             red1 = red ! 0,
                                             red2 = red ! 1,
                                             red3 = red ! 2,
                                             red4 = red ! 3,
                                             red5 = red ! 4,
                                             red6 = red ! 5,
                                             blue = blue,
                                             date = open_time\<rparr>))
                            else Inr None))
              | _ \<Rightarrow> Inl AttributeError)
      | _ \<Rightarrow> Inl AttributeError)"

fun sporttery_items_loop ::
  "(json \<Rightarrow> string) \<Rightarrow> json list \<Rightarrow> DrawRecord list \<Rightarrow> py_exn + DrawRecord list" where
  "sporttery_items_loop repr [] records = Inr records"
| "sporttery_items_loop repr (it # items) records =
     (case sporttery_item repr it of
        Inl e \<Rightarrow> Inl e
      | Inr None \<Rightarrow> sporttery_items_loop repr items records
      | Inr (Some r) \<Rightarrow> sporttery_items_loop repr items (records @ [r]))"

definition sporttery_url :: string where
  "sporttery_url = ''https://webapi.sporttery.cn/gateway/lottery/getHistoryPageListV1.qry''"

definition sporttery_params :: "int \<Rightarrow> params" where
  "sporttery_params page_no =
     [(''gameNo'', ''85''), (''provinceId'', ''0''), (''pageSize'', ''50''), (''isVerify'', ''1''),
      (''pageNo'', str_int page_no)]"

definition sporttery_headers :: params where
  "sporttery_headers =
     [(''Accept'', ''application/json, text/plain, */*''),
      (''Origin'', ''https://www.sporttery.cn''),
      (''Referer'', ''https://www.sporttery.cn/'')]"

text \<open>\<^verbatim>\<open>(data.get("value") or {}).get("list") or []\<close>.\<close>

definition page_items :: "json \<Rightarrow> py_exn + json" where
  "page_items data =
     (case py_get data ''value'' of
        Inl e \<Rightarrow> Inl e
      | Inr v \<Rightarrow>
          (case py_get (py_or v (JDict [])) ''list'' of
             Inl e \<Rightarrow> Inl e
           | Inr l \<Rightarrow> Inr (py_or l (JList []))))"

text \<open>
  The loop over the page numbers, with \<open>records\<close> as its state. The request stands
  outside the \<open>try\<close>, so its exception leaves the function; \<open>break\<close> returns the records
  collected so far. \<open>time.sleep\<close> has no effect on the result.
\<close>

fun sporttery_pages :: "world \<Rightarrow> int list \<Rightarrow> DrawRecord list \<Rightarrow> py_exn + DrawRecord list" where
  "sporttery_pages w [] records = Inr records"
| "sporttery_pages w (page_no # rest) records =
     (case urllib_get w sporttery_url (sporttery_params page_no) None sporttery_headers of
        Inl e \<Rightarrow> Inl e
      | Inr text \<Rightarrow>
          (case json_loads w text of
             None \<Rightarrow> Inr records
           | Some data \<Rightarrow>
               (case page_items data of
                  Inl e \<Rightarrow> Inl e
                | Inr items \<Rightarrow>
                    if \<not> truthy items then Inr records
                    else
                      (case py_iter items of
                         Inl e \<Rightarrow> Inl e
                       | Inr its \<Rightarrow>
                           (case sporttery_items_loop (py_repr w) its records of
                              Inl e \<Rightarrow> Inl e
                            | Inr records' \<Rightarrow> sporttery_pages w rest records')))))"

text \<open>\<open>range(1, max_pages + 1)\<close> is the list \<open>[1..max_pages]\<close>.\<close>

definition fetch_from_sporttery_with_urllib :: "world \<Rightarrow> int \<Rightarrow> py_exn + DrawRecord list" where
  "fetch_from_sporttery_with_urllib w max_pages = sporttery_pages w [1..max_pages] []"

section \<open>Sink: \<open>save_to_csv\<close>\<close>

definition to_row :: "DrawRecord \<Rightarrow> string list" where
  "to_row r = [issue r, red1 r, red2 r, red3 r, red4 r, red5 r, red6 r, blue r, date r]"

definition csv_header :: "string list" where
  "csv_header = [''issue'', ''red1'', ''red2'', ''red3'', ''red4'', ''red5'', ''red6'', ''blue'', ''date'']"

text \<open>
  \<open>os.path.dirname\<close> on a POSIX system: the path up to its last slash, without the
  trailing slashes unless it consists of slashes only.
\<close>

definition dirname :: "string \<Rightarrow> string" where
  "dirname p =
     (let head = rev (dropWhile (\<lambda>c. c \<noteq> CHR ''/'') (rev p))
      in if head \<noteq> [] \<and> \<not> list_all (\<lambda>c. c = CHR ''/'') head
         then rev (dropWhile (\<lambda>c. c = CHR ''/'') (rev head))
         else head)"

text \<open>The result is the exception that leaves the function, if any.\<close>

definition save_to_csv :: "world \<Rightarrow> DrawRecord list \<Rightarrow> string \<Rightarrow> py_exn option" where
  "save_to_csv w records output_path =
     (case makedirs w (dirname output_path) of
        Some e \<Rightarrow> Some e
      | None \<Rightarrow> write_csv w output_path (csv_header # map to_row records))"

section \<open>Orchestrator: \<open>main\<close> and \<open>run_selftest\<close>\<close>

datatype source_choice = SourceAll | SourceSporttery | Source500 | SourceCwl

text \<open>
  The namespace that \<open>parser.parse_args()\<close> returns; \<open>args_output\<close> is its attribute
  \<open>output\<close>.
\<close>

record args =
  args_output :: string
  source :: source_choice
  start_issue :: string
  end_issue :: string
  max_pages :: int
  issue_count :: int
  selftest :: bool

datatype fetch_call =
    Call_try_fetch_from_cwl
  | Call_fetch_from_sporttery_with_urllib
  | Call_fetch_from_500_with_requests
  | Call_fetch_from_500_with_urllib
  | Call_fetch_from_cwl_with_urllib

text \<open>The three lines that the program prints, with their arguments.\<close>

datatype message =
    No_records_fetched
  | Saved nat string
  | Selftest_saved nat string

text \<open>
  How a call of \<open>main\<close> ends: it returns an exit code, which \<open>sys.exit\<close> passes on, or an
  exception leaves it, and the interpreter then exits with status 1.
\<close>

datatype outcome = Returned int | Raised py_exn

fun exit_status :: "outcome \<Rightarrow> int" where
  "exit_status (Returned n) = n"
| "exit_status (Raised e) = 1"

record run_result =
  outcome :: outcome
  stdout :: "message list"
  stderr :: "message list"
  calls :: "fetch_call list"

text \<open>The state of \<open>main\<close> while it collects: \<open>all_records\<close> and the fetchers called so far.\<close>

record collect_state =
  all_records :: "DrawRecord list"
  called :: "fetch_call list"

text \<open>
  \<^verbatim>\<open>try: all_records.extend(f(...)) except Exception: pass\<close> for a fetcher \<open>f\<close> whose
  outcome is \<open>r\<close>.
\<close>

definition try_extend :: "fetch_call \<Rightarrow> py_exn + DrawRecord list \<Rightarrow> collect_state \<Rightarrow> collect_state" where
  "try_extend c r st =
     (case r of
        Inl e \<Rightarrow> st\<lparr>called := called st @ [c]\<rparr>
      | Inr rs \<Rightarrow> st\<lparr>all_records := all_records st @ rs, called := called st @ [c]\<rparr>)"

text \<open>The three \<open>if\<close> blocks of \<open>main\<close>, in the order of the source.\<close>

definition main_sporttery :: "world \<Rightarrow> args \<Rightarrow> collect_state \<Rightarrow> collect_state" where
  "main_sporttery w a st =
     (if source a = SourceAll \<or> source a = SourceSporttery then
        (if requests w then
           try_extend Call_try_fetch_from_cwl (try_fetch_from_cwl_out w (max_pages a)) st
         else
           try_extend Call_fetch_from_sporttery_with_urllib
             (fetch_from_sporttery_with_urllib w (max_pages a)) st)
      else st)"

definition main_500 :: "world \<Rightarrow> args \<Rightarrow> collect_state \<Rightarrow> collect_state" where
  "main_500 w a st =
     (if source a = SourceAll \<or> source a = Source500 then
        (if requests w then
           try_extend Call_fetch_from_500_with_requests
             (fetch_from_500_with_requests w (start_issue a) (end_issue a)) st
         else
           try_extend Call_fetch_from_500_with_urllib
             (fetch_from_500_with_urllib w (start_issue a) (end_issue a)) st)
      else st)"

definition main_cwl :: "world \<Rightarrow> args \<Rightarrow> collect_state \<Rightarrow> collect_state" where
  "main_cwl w a st =
     (if (source a = SourceAll \<or> source a = SourceCwl) \<and> \<not> requests w then
        try_extend Call_fetch_from_cwl_with_urllib
          (fetch_from_cwl_with_urllib_out w (issue_count a)) st
      else st)"

definition collect :: "world \<Rightarrow> args \<Rightarrow> collect_state" where
  "collect w a = main_cwl w a (main_500 w a (main_sporttery w a \<lparr>all_records = [], called = []\<rparr>))"

text \<open>The samples of \<open>run_selftest\<close>.\<close>

definition sample_sporttery_item :: "(string \<times> json) list" where
  "sample_sporttery_item =
     [(''lotteryDrawNum'', JStr ''2023001''),
      (''lotteryDrawResult'', JStr ''01 02 03 04 05 06+07''),
      (''lotteryDrawTime'', JStr ''2023-01-03'')]"

definition sample_500_html :: string where
  \<open>sample_500_html =
     ''<table id="tdata"><tr>'' @
     ''<td>2023002</td>'' @
     ''<td>08</td><td>09</td><td>10</td><td>11</td><td>12</td><td>13</td>'' @
     ''<td>16</td>'' @
     ''<td></td><td></td><td></td><td></td><td></td><td></td><td></td>'' @
     ''<td>2023-01-05</td>'' @
     ''</tr></table>''\<close>

text \<open>
  The record that \<open>run_selftest\<close> builds from its one sample item; the sample has seven
  tokens, so no subscript fails.
\<close>

definition selftest_sporttery_record :: "(json \<Rightarrow> string) \<Rightarrow> DrawRecord" where
  "selftest_sporttery_record repr =
     (let issue = py_str repr (py_or (dict_get sample_sporttery_item ''lotteryDrawNum'') (JStr []));
          code = strip (py_str repr (py_or (dict_get sample_sporttery_item ''lotteryDrawResult'') (JStr [])));
          open_time = py_str repr (py_or (dict_get sample_sporttery_item ''lotteryDrawTime'') (JStr []));
          nums = result_tokens code;
          red = take 6 nums;
          blue = nums ! 6
      in \<lparr>issue = issue, red1 = red ! 0, red2 = red ! 1, red3 = red ! 2, red4 = red ! 3,
          red5 = red ! 4, red6 = red ! 5, blue = blue, date = open_time\<rparr>)"

definition run_selftest :: "world \<Rightarrow> string \<Rightarrow> run_result" where
  "run_selftest w output_path =
     (let records = [selftest_sporttery_record (py_repr w)] @
                    parse_500_history_html (BeautifulSoup w) sample_500_html
      in case dedupe_and_sort records of
           Inl e \<Rightarrow> \<lparr>outcome = Raised e, stdout = [], stderr = [], calls = []\<rparr>
         | Inr final_records \<Rightarrow>
             (case save_to_csv w final_records output_path of
                Some e \<Rightarrow> \<lparr>outcome = Raised e, stdout = [], stderr = [], calls = []\<rparr>
              | None \<Rightarrow>
                  \<lparr>outcome = Returned 0,
                   stdout = [Selftest_saved (length final_records) output_path],
                   stderr = [], calls = []\<rparr>))"

definition main :: "world \<Rightarrow> args \<Rightarrow> run_result" where
  "main w a =
     (if selftest a then run_selftest w (args_output a)
      else
        (let st = collect w a
         in case dedupe_and_sort (all_records st) of
              Inl e \<Rightarrow> \<lparr>outcome = Raised e, stdout = [], stderr = [], calls = called st\<rparr>
            | Inr final_records \<Rightarrow>
                if final_records = [] then
                  \<lparr>outcome = Returned 2, stdout = [], stderr = [No_records_fetched],
                   calls = called st\<rparr>
                else
                  (case save_to_csv w final_records (args_output a) of
                     Some e \<Rightarrow> \<lparr>outcome = Raised e, stdout = [], stderr = [], calls = called st\<rparr>
                   | None \<Rightarrow>
                       \<lparr>outcome = Returned 0,
                        stdout = [Saved (length final_records) (args_output a)],
                        stderr = [], calls = called st\<rparr>)))"

section \<open>Sample records\<close>

text \<open>
  The two records of the self-test, a third one with the issue of the first and other
  content, and one without an issue.
\<close>

definition rec_2023002 :: DrawRecord where
  "rec_2023002 =
     \<lparr>issue = ''2023002'', red1 = ''08'', red2 = ''09'', red3 = ''10'', red4 = ''11'',
      red5 = ''12'', red6 = ''13'', blue = ''16'', date = ''2023-01-05''\<rparr>"

definition rec_2023001 :: DrawRecord where
  "rec_2023001 =
     \<lparr>issue = ''2023001'', red1 = ''01'', red2 = ''02'', red3 = ''03'', red4 = ''04'',
      red5 = ''05'', red6 = ''06'', blue = ''07'', date = ''2023-01-03''\<rparr>"

definition rec_2023002_late :: DrawRecord where
  "rec_2023002_late =
     \<lparr>issue = ''2023002'', red1 = ''01'', red2 = ''09'', red3 = ''10'', red4 = ''11'',
      red5 = ''12'', red6 = ''13'', blue = ''16'', date = ''2023-01-06''\<rparr>"

definition rec_no_issue :: DrawRecord where
  "rec_no_issue =
     \<lparr>issue = [], red1 = ''01'', red2 = ''02'', red3 = ''03'', red4 = ''04'',
      red5 = ''05'', red6 = ''06'', blue = ''07'', date = ''2023-01-03''\<rparr>"

section \<open>Sample environments and arguments\<close>

text \<open>
  A machine with \<open>requests\<close> installed where every source answers with data and the
  output directory can be written.
\<close>

definition world_requests :: world where
  "world_requests =
     \<lparr>requests = True,
      BeautifulSoup = None,
      urllib_get = (\<lambda>url ps enc hs. Inl URLError),
      client_get_text = (\<lambda>url ps enc. Inr sample_500_html),
      json_loads = (\<lambda>text. None),
      py_repr = (\<lambda>v. []),
      try_fetch_from_cwl_out = (\<lambda>n. Inr [rec_2023001]),
      fetch_from_cwl_with_urllib_out = (\<lambda>n. Inr [rec_2023001]),
      makedirs = (\<lambda>p. None),
      write_csv = (\<lambda>p rows. None)\<rparr>"

text \<open>
  The same machine where \<open>os.makedirs\<close> raises \<open>FileNotFoundError\<close> on the empty path, as
  it does on every system.
\<close>

definition world_no_dir :: world where
  "world_no_dir = world_requests\<lparr>makedirs := (\<lambda>p. if p = [] then Some FileNotFoundError else None)\<rparr>"

definition args_default :: args where
  "args_default =
     \<lparr>args_output = ''/workspace/data/ssq_history.csv'', source = SourceAll,
      start_issue = ''03001'', end_issue = ''99999'', max_pages = 200, issue_count = 200,
      selftest = False\<rparr>"

definition args_out_csv :: args where
  "args_out_csv = args_default\<lparr>args_output := ''out.csv'', source := SourceSporttery\<rparr>"

text \<open>
  The machine of \<open>world_requests\<close> where the output file cannot be written: the directory
  exists, and opening the file raises \<open>PermissionError\<close>.
\<close>

definition world_read_only :: world where
  "world_read_only = world_requests\<lparr>write_csv := (\<lambda>p rows. Some PermissionError)\<rparr>"

definition args_sporttery :: args where
  "args_sporttery = args_default\<lparr>source := SourceSporttery\<rparr>"

text \<open>
  A machine without \<open>requests\<close> where the first page of the paged source holds the
  sample item and the request for every further page fails.
\<close>

definition page_of_sample :: json where
  "page_of_sample = JDict [(''value'', JDict [(''list'', JList [JDict sample_sporttery_item])])]"

definition world_page2_down :: world where
  "world_page2_down =
     \<lparr>requests = False,
      BeautifulSoup = None,
      urllib_get = (\<lambda>url ps enc hs.
         if url = sporttery_url \<and> map_of ps ''pageNo'' = Some ''1'' then Inr ''page1''
         else Inl URLError),
      client_get_text = (\<lambda>url ps enc. Inl URLError),
      json_loads = (\<lambda>text. if text = ''page1'' then Some page_of_sample else None),
      py_repr = (\<lambda>v. []),
      try_fetch_from_cwl_out = (\<lambda>n. Inl URLError),
      fetch_from_cwl_with_urllib_out = (\<lambda>n. Inl URLError),
      makedirs = (\<lambda>p. None),
      write_csv = (\<lambda>p rows. None)\<rparr>"

text \<open>The same machine where every further page arrives but is not JSON.\<close>

definition world_page2_garbled :: world where
  "world_page2_garbled =
     world_page2_down\<lparr>urllib_get := (\<lambda>url ps enc hs.
         if url = sporttery_url \<and> map_of ps ''pageNo'' = Some ''1'' then Inr ''page1''
         else Inr ''<html>'')\<rparr>"

definition args_sporttery3 :: args where
  "args_sporttery3 = args_default\<lparr>source := SourceSporttery, max_pages := 3\<rparr>"

text \<open>
  An item whose result string starts with a tab: split as it stands it has seven
  tokens, the first of them the tab.
\<close>

definition item_leading_tab :: json where
  "item_leading_tab =
     JDict [(''lotteryDrawNum'', JStr ''2023001''),
            (''lotteryDrawResult'', JStr (CHR 0x09 # '' 01 02 03 04 05 06'')),
            (''lotteryDrawTime'', JStr ''2023-01-03'')]"

text \<open>
  A page whose table has one row with one-digit numbers, and the cell texts that
  BeautifulSoup finds in it.
\<close>

definition html_one_digit :: string where
  \<open>html_one_digit =
     ''<table id="tdata"><tr>'' @
     ''<td>2023003</td>'' @
     ''<td>7</td><td>9</td><td>10</td><td>11</td><td>12</td><td>13</td>'' @
     ''<td>6</td>'' @
     ''<td></td><td></td><td></td><td></td><td></td><td></td><td></td>'' @
     ''<td>2023-01-08</td>'' @
     ''</tr></table>''\<close>

definition cells_one_digit :: soup_row where
  "cells_one_digit =
     [''2023003'', ''7'', ''9'', ''10'', ''11'', ''12'', ''13'', ''6'',
      [], [], [], [], [], [], [], ''2023-01-08'']"

definition soup_one_digit :: soup where
  "soup_one_digit html = (if html = html_one_digit then Some [cells_one_digit] else None)"

text \<open>
  A page whose table has a row of one-digit numbers and a row whose issue and numbers
  are not digits, and the cell texts that BeautifulSoup finds in it.
\<close>

definition html_two_rows :: string where
  \<open>html_two_rows =
     ''<table id="tdata"><tr>'' @
     ''<td>2023004</td>'' @
     ''<td>3</td><td>5</td><td>8</td><td>1</td><td>2</td><td>4</td>'' @
     ''<td>9</td>'' @
     ''<td></td><td></td><td></td><td></td><td></td><td></td><td></td>'' @
     ''<td>2023-01-10</td>'' @
     ''</tr><tr>'' @
     ''<td>total</td>'' @
     ''<td>a</td><td>b</td><td>c</td><td>d</td><td>e</td><td>f</td>'' @
     ''<td>g</td>'' @
     ''<td></td><td></td><td></td><td></td><td></td><td></td><td></td>'' @
     ''<td>-</td>'' @
     ''</tr></table>''\<close>

definition soup_two_rows :: soup where
  "soup_two_rows html =
     (if html = html_two_rows then
        Some [[''2023004'', ''3'', ''5'', ''8'', ''1'', ''2'', ''4'', ''9'',
               [], [], [], [], [], [], [], ''2023-01-10''],
              [''total'', ''a'', ''b'', ''c'', ''d'', ''e'', ''f'', ''g'',
               [], [], [], [], [], [], [], ''-'']]
      else None)"

section \<open>Proofs about the merger\<close>

subsection \<open>The dictionary built by the loop\<close>

lemma by_issue_loop_keys:
  "fst ` set (by_issue_loop rs d) = fst ` set d \<union> {k. k \<noteq> [] \<and> k \<in> issue ` set rs}"
  by (induction rs arbitrary: d) (auto simp: dom_update)

lemma by_issue_loop_distinct:
  "distinct (map fst d) \<Longrightarrow> distinct (map fst (by_issue_loop rs d))"
  by (induction rs arbitrary: d) (simp_all add: distinct_update)

lemma by_issue_loop_lookup:
  "k \<noteq> [] \<Longrightarrow>
   map_of (by_issue_loop rs d) k =
     (if filter (\<lambda>r. issue r = k) rs = [] then map_of d k
      else Some (last (filter (\<lambda>r. issue r = k) rs)))"
proof (induction rs arbitrary: d)
  case Nil
  then show ?case by simp
next
  case (Cons r rs)
  show ?case
  proof (cases "issue r = []")
    case True
    with Cons show ?thesis by auto
  next
    case False
    with Cons show ?thesis by (auto simp: update_conv')
  qed
qed

lemma by_issue_loop_values:
  assumes "\<forall>(k, r) \<in> set d. issue r = k \<and> r \<in> S"
    and "set rs \<subseteq> S"
  shows "\<forall>(k, r) \<in> set (by_issue_loop rs d). issue r = k \<and> r \<in> S"
  using assms
proof (induction rs arbitrary: d)
  case Nil
  then show ?case by simp
next
  case (Cons x rs)
  have upd: "\<forall>(k, r) \<in> set (AList.update (issue x) x d). issue r = k \<and> r \<in> S"
  proof -
    have "set (AList.update (issue x) x d) \<subseteq> insert (issue x, x) (set d)"
      by (induction d) auto
    moreover have "x \<in> S" using Cons.prems(2) by simp
    ultimately show ?thesis using Cons.prems(1) by auto
  qed
  from Cons.prems(2) have sub: "set rs \<subseteq> S" by simp
  show ?case
  proof (cases "issue x = []")
    case True
    then show ?thesis using Cons.IH[OF Cons.prems(1) sub] by simp
  next
    case False
    then show ?thesis using Cons.IH[OF upd sub] by simp
  qed
qed

lemma getitems_total:
  "set ks \<subseteq> fst ` set d \<Longrightarrow> getitems d ks = Inr (map (\<lambda>k. the (map_of d k)) ks)"
proof (induction ks)
  case Nil
  then show ?case by simp
next
  case (Cons k ks)
  then have "k \<in> fst ` set d" by simp
  then obtain r where "map_of d k = Some r"
    by (metis domD dom_map_of_conv_image_fst)
  with Cons show ?case by simp
qed

lemma dedupe_and_sort_merged: "dedupe_and_sort rs = Inr (merged rs)"
  unfolding dedupe_and_sort_def merged_def Let_def
  by (rule getitems_total) simp

subsection \<open>Properties of the merged list\<close>

lemma merged_issues: "map issue (merged rs) = sort (map fst (by_issue_loop rs []))"
proof -
  let ?d = "by_issue_loop rs []"
  have inv: "\<forall>(k, r) \<in> set ?d. issue r = k \<and> r \<in> set rs"
    by (rule by_issue_loop_values) simp_all
  have "issue (the (map_of ?d k)) = k" if "k \<in> fst ` set ?d" for k
  proof -
    from that obtain r where r: "map_of ?d k = Some r"
      by (metis domD dom_map_of_conv_image_fst)
    then have "(k, r) \<in> set ?d" by (rule map_of_SomeD)
    with inv r show ?thesis by auto
  qed
  then have "map (\<lambda>k. issue (the (map_of ?d k))) (sort (map fst ?d)) = map (\<lambda>k. k) (sort (map fst ?d))"
    by (intro map_cong) auto
  then show ?thesis by (simp add: merged_def Let_def comp_def)
qed

lemma merged_sorted: "sorted (map issue (merged rs))"
  by (simp add: merged_issues)

lemma merged_distinct: "distinct (map issue (merged rs))"
  by (simp add: merged_issues by_issue_loop_distinct)

lemma merged_subset: "set (merged rs) \<subseteq> set rs"
proof
  fix x assume "x \<in> set (merged rs)"
  let ?d = "by_issue_loop rs []"
  have inv: "\<forall>(k, r) \<in> set ?d. issue r = k \<and> r \<in> set rs"
    by (rule by_issue_loop_values) simp_all
  from \<open>x \<in> set (merged rs)\<close> obtain k where k: "k \<in> fst ` set ?d" and x: "x = the (map_of ?d k)"
    by (auto simp: merged_def Let_def)
  from k obtain r where r: "map_of ?d k = Some r"
    by (metis domD dom_map_of_conv_image_fst)
  then have "(k, r) \<in> set ?d" by (rule map_of_SomeD)
  with inv r x show "x \<in> set rs" by auto
qed

lemma merged_nonempty_issue: "r \<in> set (merged rs) \<Longrightarrow> issue r \<noteq> []"
proof -
  assume "r \<in> set (merged rs)"
  then have "issue r \<in> set (map issue (merged rs))" by simp
  then have "issue r \<in> fst ` set (by_issue_loop rs [])" by (simp add: merged_issues)
  then show ?thesis by (simp add: by_issue_loop_keys)
qed

lemma filter_key_distinct:
  "distinct (map f xs) \<Longrightarrow> x \<in> set xs \<Longrightarrow> filter (\<lambda>y. f y = f x) xs = [x]"
proof (induction xs)
  case Nil then show ?case by simp
next
  case (Cons a xs)
  show ?case
  proof (cases "a = x")
    case True
    with Cons.prems have "\<forall>y\<in>set xs. f y \<noteq> f x" by (metis distinct.simps(2) image_eqI list.simps(9) set_map)
    then have "filter (\<lambda>y. f y = f x) xs = []" by (simp add: filter_empty_conv)
    with True show ?thesis by simp
  next
    case False
    with Cons.prems have "x \<in> set xs" "f a \<noteq> f x" by auto
    with Cons show ?thesis by simp
  qed
qed

lemma merged_last_wins:
  assumes "r \<in> set rs" and "issue r \<noteq> []"
  shows "filter (\<lambda>x. issue x = issue r) (merged rs) = [last (filter (\<lambda>x. issue x = issue r) rs)]"
proof -
  let ?d = "by_issue_loop rs []"
  let ?k = "issue r"
  let ?w = "last (filter (\<lambda>x. issue x = ?k) rs)"
  from assms have ne: "filter (\<lambda>x. issue x = ?k) rs \<noteq> []"
    by (auto simp: filter_empty_conv)
  with assms(2) have look: "map_of ?d ?k = Some ?w"
    by (simp add: by_issue_loop_lookup)
  have kin: "?k \<in> fst ` set ?d" using assms by (auto simp: by_issue_loop_keys)
  then have "?k \<in> set (sort (map fst ?d))" by simp
  then have win: "?w \<in> set (merged rs)"
    using look by (force simp: merged_def Let_def)
  from ne have "?w \<in> set (filter (\<lambda>x. issue x = ?k) rs)" by (rule last_in_set)
  then have wk: "issue ?w = ?k" by simp
  from filter_key_distinct[OF merged_distinct win, of ] wk show ?thesis by simp
qed

lemma update_fresh: "k \<notin> fst ` set d \<Longrightarrow> AList.update k v d = d @ [(k, v)]"
  by (induction d) auto

lemma by_issue_loop_fresh:
  "distinct (map fst d @ map issue rs) \<Longrightarrow> [] \<notin> issue ` set rs \<Longrightarrow>
   by_issue_loop rs d = d @ map (\<lambda>r. (issue r, r)) rs"
proof (induction rs arbitrary: d)
  case Nil then show ?case by simp
next
  case (Cons r rs)
  from Cons.prems have fresh: "issue r \<notin> fst ` set d" and ne: "issue r \<noteq> []" by auto
  from Cons.prems have "distinct (map fst (d @ [(issue r, r)]) @ map issue rs)" by auto
  moreover from Cons.prems have "[] \<notin> issue ` set rs" by auto
  ultimately have "by_issue_loop rs (d @ [(issue r, r)]) = (d @ [(issue r, r)]) @ map (\<lambda>r. (issue r, r)) rs"
    by (rule Cons.IH)
  with fresh ne show ?case by (simp add: update_fresh)
qed

lemma merged_idem: "merged (merged rs) = merged rs"
proof -
  let ?out = "merged rs"
  have d: "by_issue_loop ?out [] = map (\<lambda>r. (issue r, r)) ?out"
  proof -
    have "[] \<notin> issue ` set ?out" using merged_nonempty_issue[of _ rs] by force
    moreover have "distinct (map fst ([] :: by_issue_dict) @ map issue ?out)"
      by (simp add: merged_distinct)
    ultimately show ?thesis using by_issue_loop_fresh[of "[]" ?out] by simp
  qed
  have keys: "map fst (map (\<lambda>r. (issue r, r)) ?out) = map issue ?out" by (simp add: comp_def)
  have srt: "sort (map issue ?out) = map issue ?out"
    by (rule sorted_sort_id) (rule merged_sorted)
  have look: "map_of (map (\<lambda>r. (issue r, r)) ?out) (issue x) = Some x" if "x \<in> set ?out" for x
  proof -
    have "distinct (map fst (map (\<lambda>r. (issue r, r)) ?out))"
      by (simp add: comp_def merged_distinct)
    moreover have "(issue x, x) \<in> set (map (\<lambda>r. (issue r, r)) ?out)" using that by auto
    ultimately show ?thesis by (rule map_of_is_SomeI)
  qed
  have "merged ?out = map (\<lambda>k. the (map_of (map (\<lambda>r. (issue r, r)) ?out) k)) (map issue ?out)"
    unfolding merged_def[of ?out] Let_def d keys srt ..
  also have "\<dots> = map (\<lambda>x. x) ?out"
    unfolding map_map comp_def by (rule map_cong) (simp_all add: look)
  finally show ?thesis by simp
qed

section \<open>Proofs about the Table-Source parser\<close>

subsection \<open>Digits and the format \<open>02d\<close>\<close>

lemma digit_char_numerals:
  "digit_char 0 = CHR ''0''" "digit_char 1 = CHR ''1''" "digit_char 2 = CHR ''2''"
  "digit_char 3 = CHR ''3''" "digit_char 4 = CHR ''4''" "digit_char 5 = CHR ''5''"
  "digit_char 6 = CHR ''6''" "digit_char 7 = CHR ''7''" "digit_char 8 = CHR ''8''"
  "digit_char 9 = CHR ''9''"
  by code_simp+

lemma digit_value_chars:
  "digit_value CHR ''0'' = 0" "digit_value CHR ''1'' = 1" "digit_value CHR ''2'' = 2"
  "digit_value CHR ''3'' = 3" "digit_value CHR ''4'' = 4" "digit_value CHR ''5'' = 5"
  "digit_value CHR ''6'' = 6" "digit_value CHR ''7'' = 7" "digit_value CHR ''8'' = 8"
  "digit_value CHR ''9'' = 9"
  by code_simp+

lemma digit_char_value: "is_digit c \<Longrightarrow> digit_value c < 10 \<and> digit_char (digit_value c) = c"
  unfolding is_digit_def
  by (auto simp: digit_value_chars digit_char_numerals digit_char_numerals(2) [unfolded One_nat_def])

lemma digit_char_is_digit: "d < 10 \<Longrightarrow> is_digit (digit_char d) \<and> digit_value (digit_char d) = d"
proof -
  assume "d < 10"
  then have "d = 0 \<or> d = 1 \<or> d = 2 \<or> d = 3 \<or> d = 4 \<or> d = 5 \<or> d = 6 \<or> d = 7 \<or> d = 8 \<or> d = 9"
    by presburger
  then show ?thesis
    by (elim disjE)
       (simp_all add: digit_char_numerals digit_value_chars is_digit_def
          digit_char_numerals(2) [unfolded One_nat_def])
qed

lemma str_nat_small: "n < 10 \<Longrightarrow> str_nat n = [digit_char n]"
  by simp

lemma str_nat_two: "10 \<le> n \<Longrightarrow> n < 100 \<Longrightarrow> str_nat n = [digit_char (n div 10), digit_char (n mod 10)]"
  by (subst str_nat.simps) (simp add: str_nat_small)

lemma format_02d_lt_100:
  "n < 100 \<Longrightarrow> format_02d n = [digit_char (n div 10), digit_char (n mod 10)]"
proof (cases "n < 10")
  case True
  then have "n div 10 = 0" "n mod 10 = n" by simp_all
  then show ?thesis using True by (simp add: format_02d_def Let_def digit_char_numerals)
next
  case False
  moreover assume "n < 100"
  ultimately show ?thesis by (simp add: format_02d_def Let_def str_nat_two del: str_nat.simps)
qed

lemma py_int_one: "py_int [c] = digit_value c"
  by (simp add: py_int_def)

lemma py_int_two: "py_int [c1, c2] = 10 * digit_value c1 + digit_value c2"
  by (simp add: py_int_def)

lemma fullmatch_digits12_cases:
  "fullmatch_digits12 s \<longleftrightarrow>
     (\<exists>c. s = [c] \<and> is_digit c) \<or> (\<exists>c1 c2. s = [c1, c2] \<and> is_digit c1 \<and> is_digit c2)"
proof (cases s)
  case Nil
  then show ?thesis by (simp add: fullmatch_digits12_def)
next
  case (Cons a t)
  show ?thesis
  proof (cases t)
    case Nil
    with Cons show ?thesis by (simp add: fullmatch_digits12_def)
  next
    case (Cons b u)
    with \<open>s = a # t\<close> show ?thesis by (cases u) (auto simp: fullmatch_digits12_def)
  qed
qed

lemma format_02d_py_int_one_digit:
  assumes "is_digit c"
  shows "format_02d (py_int [c]) = [CHR ''0'', c]"
proof -
  from assms have v: "digit_value c < 10" "digit_char (digit_value c) = c"
    by (simp_all add: digit_char_value)
  then have "format_02d (py_int [c]) = [digit_char (py_int [c] div 10), digit_char (py_int [c] mod 10)]"
    by (intro format_02d_lt_100) (simp add: py_int_one)
  with v show ?thesis by (simp add: py_int_one digit_char_numerals)
qed

lemma format_02d_py_int_two_digits:
  assumes "is_digit c1" and "is_digit c2"
  shows "format_02d (py_int [c1, c2]) = [c1, c2]"
proof -
  from assms have v: "digit_value c1 < 10" "digit_value c2 < 10"
    "digit_char (digit_value c1) = c1" "digit_char (digit_value c2) = c2"
    by (simp_all add: digit_char_value)
  then have "py_int [c1, c2] < 100" by (simp add: py_int_two)
  then have "format_02d (py_int [c1, c2]) =
      [digit_char (py_int [c1, c2] div 10), digit_char (py_int [c1, c2] mod 10)]"
    by (rule format_02d_lt_100)
  with v show ?thesis by (simp add: py_int_two)
qed

lemma format_02d_py_int:
  "fullmatch_digits12 s \<Longrightarrow> format_02d (py_int s) = padded s"
  by (auto simp: fullmatch_digits12_cases padded_def format_02d_py_int_one_digit
        format_02d_py_int_two_digits)

lemma padded_two_digits:
  "fullmatch_digits12 s \<Longrightarrow> length (padded s) = 2 \<and> list_all is_digit (padded s)"
  by (auto simp: fullmatch_digits12_cases padded_def is_digit_def)

subsection \<open>One row in the two strategies\<close>

lemma upt_1_7: "[1..<7] = [1, 2, 3, 4, 5, 6::nat]"
  by (simp add: upt_rec)

lemma reds_slice:
  "16 \<le> length tds \<Longrightarrow>
   take 6 (drop 1 tds) = [tds ! 1, tds ! 2, tds ! 3, tds ! 4, tds ! 5, tds ! 6]"
  by (auto simp: list_eq_iff_nth_eq less_Suc_eq numeral_eq_Suc)

lemma cells_1_to_7:
  "(\<forall>i\<in>{1..7::nat}. P i) \<longleftrightarrow> P 1 \<and> P 2 \<and> P 3 \<and> P 4 \<and> P 5 \<and> P 6 \<and> P 7"
proof -
  have "{1..7::nat} = {1, 2, 3, 4, 5, 6, 7}" by auto
  then show ?thesis by simp
qed

lemmas row_simps =
  reds_slice [unfolded One_nat_def] cells_1_to_7 [unfolded One_nat_def]
  upt_1_7 [unfolded One_nat_def]

lemma regex_row_record_valid:
  assumes "16 \<le> length tds" and "fullmatch_digits (tds ! 0)"
    and "\<forall>i\<in>{1..7}. fullmatch_digits12 (tds ! i)"
  shows "regex_row_record tds =
           Some \<lparr>issue = tds ! 0, red1 = padded (tds ! 1), red2 = padded (tds ! 2),
                 red3 = padded (tds ! 3), red4 = padded (tds ! 4), red5 = padded (tds ! 5),
                 red6 = padded (tds ! 6), blue = padded (tds ! 7), date = tds ! 15\<rparr>"
  using assms
  by (simp add: regex_row_record_def Let_def row_simps format_02d_py_int)

lemma regex_row_record_invalid:
  assumes "length tds < 16 \<or> \<not> fullmatch_digits (tds ! 0) \<or>
           (\<exists>i\<in>{1..7}. \<not> fullmatch_digits12 (tds ! i))"
  shows "regex_row_record tds = None"
proof (cases "length tds < 16")
  case True
  then show ?thesis by (simp add: regex_row_record_def)
next
  case False
  then have len: "16 \<le> length tds" by simp
  from assms False have
    "\<not> (fullmatch_digits (tds ! 0) \<and> (\<forall>i\<in>{1..7}. fullmatch_digits12 (tds ! i)))"
    by blast
  with len show ?thesis
    by (auto simp: regex_row_record_def Let_def row_simps)
qed

lemma soup_row_record_verbatim:
  assumes "16 \<le> length cells" and "cells ! 0 \<noteq> []" and "\<forall>i\<in>{1..7}. cells ! i \<noteq> []"
  shows "soup_row_record cells =
           Some \<lparr>issue = cells ! 0, red1 = cells ! 1, red2 = cells ! 2, red3 = cells ! 3,
                 red4 = cells ! 4, red5 = cells ! 5, red6 = cells ! 6, blue = cells ! 7,
                 date = cells ! 15\<rparr>"
proof -
  from assms(1) have "cells \<noteq> []" by auto
  with assms show ?thesis
    by (simp add: soup_row_record_def Let_def row_simps)
qed

lemma strategies_agree_on_two_digit_cells:
  assumes "16 \<le> length cells" and "fullmatch_digits (cells ! 0)"
    and "\<forall>i\<in>{1..7}. length (cells ! i) = 2 \<and> list_all is_digit (cells ! i)"
  shows "soup_row_record cells = regex_row_record cells"
proof -
  from assms(3) have d: "\<forall>i\<in>{1..7}. fullmatch_digits12 (cells ! i)"
    by (simp add: fullmatch_digits12_def)
  from assms(3) have p: "\<forall>i\<in>{1..7}. padded (cells ! i) = cells ! i"
    by (simp add: padded_def)
  from assms(3) have n: "\<forall>i\<in>{1..7}. cells ! i \<noteq> []" by auto
  from assms(2) have i: "cells ! 0 \<noteq> []" by (simp add: fullmatch_digits_def)
  show ?thesis
    unfolding regex_row_record_valid [OF assms(1,2) d] soup_row_record_verbatim [OF assms(1) i n]
    using p by (simp add: row_simps)
qed

text \<open>
  Row by row: the fallback parser accepts exactly the rows of at least sixteen cells with
  a digit-only issue and numbers of one or two digits, and pads the numbers; the structural
  parser accepts every row of at least sixteen cells whose issue and numbers are not
  empty, and copies them. On cells of exactly two digits the two agree.
\<close>

lemma strategies_agree_on_two_digit_tables:
  assumes "\<forall>cells \<in> set rows. 16 \<le> length cells \<and> fullmatch_digits (cells ! 0) \<and>
             (\<forall>i\<in>{1..7}. length (cells ! i) = 2 \<and> list_all is_digit (cells ! i))"
  shows "List.map_filter soup_row_record rows = List.map_filter regex_row_record rows"
proof -
  from assms have "\<forall>cells \<in> set rows. soup_row_record cells = regex_row_record cells"
    by (auto intro!: strategies_agree_on_two_digit_cells)
  then show ?thesis
    by (induction rows) (auto simp: List.map_filter_simps split: option.splits)
qed

section \<open>The claims about the Table-Source parser\<close>

text \<open>
  C1. The claim holds on the fallback parser and fails on the structural one, which
  neither checks the digits nor pads. On a table with a row of one-digit numbers and
  a row without digits, the structural parser returns both rows as they stand, and the
  fallback parser returns the first row only, padded to two digits.
\<close>

theorem parse_500_history_html_soup_two_rows:
  "parse_500_history_html (Some soup_two_rows) html_two_rows =
     [\<lparr>issue = ''2023004'', red1 = ''3'', red2 = ''5'', red3 = ''8'', red4 = ''1'',
       red5 = ''2'', red6 = ''4'', blue = ''9'', date = ''2023-01-10''\<rparr>,
      \<lparr>issue = ''total'', red1 = ''a'', red2 = ''b'', red3 = ''c'', red4 = ''d'',
       red5 = ''e'', red6 = ''f'', blue = ''g'', date = ''-''\<rparr>] \<and>
   parse_500_history_html None html_two_rows =
     [\<lparr>issue = ''2023004'', red1 = ''03'', red2 = ''05'', red3 = ''08'', red4 = ''01'',
       red5 = ''02'', red6 = ''04'', blue = ''09'', date = ''2023-01-10''\<rparr>]"
  by code_simp

text \<open>
  C2. The two strategies differ on a well-formed table: on one row of sixteen cells with
  a digit-only issue and one-digit numbers, for which the fallback parser reads the very
  cell texts that the structural parser is given, the structural parser returns \<open>7\<close>,
  \<open>9\<close> and \<open>6\<close> where the fallback parser returns \<open>07\<close>, \<open>09\<close> and \<open>06\<close>.
\<close>

theorem parse_500_history_html_strategies_differ:
  "parse_500_history_html (Some soup_one_digit) html_one_digit =
     [\<lparr>issue = ''2023003'', red1 = ''7'', red2 = ''9'', red3 = ''10'', red4 = ''11'',
       red5 = ''12'', red6 = ''13'', blue = ''6'', date = ''2023-01-08''\<rparr>] \<and>
   parse_500_history_html None html_one_digit =
     [\<lparr>issue = ''2023003'', red1 = ''07'', red2 = ''09'', red3 = ''10'', red4 = ''11'',
       red5 = ''12'', red6 = ''13'', blue = ''06'', date = ''2023-01-08''\<rparr>] \<and>
   (case search_tdata_table html_one_digit of
      None \<Rightarrow> []
    | Some table_html \<Rightarrow> map td_values_of (finditer_element ''tr'' table_html)) = [cells_one_digit]"
  by code_simp

section \<open>The claims about the PagedJSON-Source fetcher\<close>

text \<open>
  A request that fails ends the function with the exception, whatever has been
  collected; a body that is not JSON ends it with the records collected so far.
\<close>

lemma sporttery_pages_request_fails:
  "urllib_get w sporttery_url (sporttery_params p) None sporttery_headers = Inl e \<Longrightarrow>
   sporttery_pages w (p # rest) records = Inl e"
  by simp

lemma sporttery_pages_decode_fails:
  "urllib_get w sporttery_url (sporttery_params p) None sporttery_headers = Inr text \<Longrightarrow>
   json_loads w text = None \<Longrightarrow>
   sporttery_pages w (p # rest) records = Inr records"
  by simp

lemma fetch_from_sporttery_page2_garbled:
  "fetch_from_sporttery_with_urllib world_page2_garbled 3 = Inr [rec_2023001]"
  by code_simp

text \<open>
  C3. The claim fails where the request of a page fails: the first page gives one record,
  the request for the second page raises, and the exception leaves the function, so the
  record of the first page is lost; \<open>main\<close> swallows the exception and, with nothing
  collected, reports that no records were fetched.
\<close>

theorem fetch_from_sporttery_page2_down:
  "sporttery_pages world_page2_down [1] [] = Inr [rec_2023001] \<and>
   fetch_from_sporttery_with_urllib world_page2_down 3 = Inl URLError \<and>
   main world_page2_down args_sporttery3 =
     \<lparr>outcome = Returned 2, stdout = [], stderr = [No_records_fetched],
      calls = [Call_fetch_from_sporttery_with_urllib]\<rparr>"
  by code_simp

text \<open>
  C4, as amended. For every item that is a dictionary with a non-empty issue and whose
  result string, once \<open>strip\<close> has removed the whitespace at both ends, splits on space,
  comma, semicolon and plus into at least seven non-empty tokens, the loop appends exactly
  one record: its six primary numbers are the first six of these tokens and its secondary
  number the seventh, all as they stand.
\<close>

theorem sporttery_item_tokens:
  assumes res: "py_or (dict_get kvs ''lotteryDrawResult'') (JStr []) = JStr s"
    and iss: "py_str repr (py_or (dict_get kvs ''lotteryDrawNum'')
                (py_or (dict_get kvs ''issue'') (JStr []))) \<noteq> []"
    and tok: "length (result_tokens (strip s)) \<ge> 7"
  shows "\<exists>r. sporttery_item repr (JDict kvs) = Inr (Some r) \<and>
           sporttery_items_loop repr [JDict kvs] records = Inr (records @ [r]) \<and>
           issue r = py_str repr (py_or (dict_get kvs ''lotteryDrawNum'')
                       (py_or (dict_get kvs ''issue'') (JStr []))) \<and>
           [red1 r, red2 r, red3 r, red4 r, red5 r, red6 r] = take 6 (result_tokens (strip s)) \<and>
           blue r = result_tokens (strip s) ! 6 \<and>
           date r = py_str repr (py_or (dict_get kvs ''lotteryDrawTime'')
                      (py_or (dict_get kvs ''date'') (JStr [])))"
proof -
  let ?nums = "result_tokens (strip s)"
  from tok have ne: "strip s \<noteq> []"
    by (auto simp: result_tokens_def)
  from tok have tk: "take 6 ?nums = [?nums ! 0, ?nums ! 1, ?nums ! 2, ?nums ! 3, ?nums ! 4, ?nums ! 5]"
    by (auto simp: list_eq_iff_nth_eq less_Suc_eq numeral_eq_Suc)
  from res iss tok ne show ?thesis
    by (simp add: sporttery_item_def Let_def tk)
qed

theorem sporttery_item_tokens_witness:
  "\<exists>r. sporttery_item (\<lambda>v. []) (JDict sample_sporttery_item) = Inr (Some r) \<and>
     sporttery_items_loop (\<lambda>v. []) [JDict sample_sporttery_item] [] = Inr [r] \<and>
     r = rec_2023001"
proof -
  have 1: "py_or (dict_get sample_sporttery_item ''lotteryDrawResult'') (JStr []) = JStr ''01 02 03 04 05 06+07''"
    by code_simp
  have 2: "py_str (\<lambda>v. []) (py_or (dict_get sample_sporttery_item ''lotteryDrawNum'')
                (py_or (dict_get sample_sporttery_item ''issue'') (JStr []))) \<noteq> []"
    by code_simp
  have 3: "length (result_tokens (strip ''01 02 03 04 05 06+07'')) \<ge> 7"
    by code_simp
  have 4: "sporttery_item (\<lambda>v. []) (JDict sample_sporttery_item) = Inr (Some rec_2023001)"
    by code_simp
  from sporttery_item_tokens [OF 1 2 3, of "[]"] 4 show ?thesis by simp
qed

text \<open>
  C4 as stated counts the tokens of the result string itself. A result string that starts
  with a tab and a space has seven such tokens, the first of them the tab; the code strips
  the tab, finds six tokens and appends nothing.
\<close>

theorem sporttery_item_tokens_counterexample:
  "length (result_tokens (CHR 0x09 # '' 01 02 03 04 05 06'')) \<ge> 7 \<and>
   sporttery_item (\<lambda>v. []) item_leading_tab = Inr None \<and>
   sporttery_items_loop (\<lambda>v. []) [item_leading_tab] [] = Inr []"
  by code_simp

section \<open>The claims about the merger\<close>

text \<open>
  C5. For every input sequence and every record in it with a non-empty issue, so in
  particular when two or more records share that issue and differ in content, the output
  of the merger holds exactly one record with that issue, and it is the record that stands
  last in the input among those with that issue (last write wins).
\<close>

theorem dedupe_and_sort_last_write_wins:
  assumes "r \<in> set rs" and "issue r \<noteq> []"
  shows "\<exists>out. dedupe_and_sort rs = Inr out \<and>
           filter (\<lambda>x. issue x = issue r) out = [last (filter (\<lambda>x. issue x = issue r) rs)]"
  using assms by (simp add: dedupe_and_sort_merged merged_last_wins)

theorem dedupe_and_sort_last_write_wins_witness:
  "rec_2023002 \<in> set [rec_2023002, rec_2023001, rec_2023002_late] \<and>
   issue rec_2023002 \<noteq> [] \<and>
   issue rec_2023002 = issue rec_2023002_late \<and>
   rec_2023002 \<noteq> rec_2023002_late \<and>
   (\<exists>out. dedupe_and_sort [rec_2023002, rec_2023001, rec_2023002_late] = Inr out \<and>
      filter (\<lambda>x. issue x = issue rec_2023002) out = [rec_2023002_late])"
  using dedupe_and_sort_last_write_wins
          [of rec_2023002 "[rec_2023002, rec_2023001, rec_2023002_late]"]
  by (simp add: rec_2023002_def rec_2023001_def rec_2023002_late_def)

text \<open>
  C6. For every input sequence, the issues of the merger's output are in non-decreasing
  lexical order.
\<close>

theorem dedupe_and_sort_sorted:
  "\<exists>out. dedupe_and_sort rs = Inr out \<and> sorted (map issue out)"
  by (simp add: dedupe_and_sort_merged merged_sorted)

theorem dedupe_and_sort_sorted_witness:
  "\<exists>out. dedupe_and_sort [rec_2023002, rec_no_issue, rec_2023001] = Inr out \<and>
     map issue out = [''2023001'', ''2023002''] \<and> sorted (map issue out)"
proof -
  from dedupe_and_sort_sorted [of "[rec_2023002, rec_no_issue, rec_2023001]"]
  obtain out where
    out: "dedupe_and_sort [rec_2023002, rec_no_issue, rec_2023001] = Inr out" and
    srt: "sorted (map issue out)"
    by blast
  have "dedupe_and_sort [rec_2023002, rec_no_issue, rec_2023001] = Inr [rec_2023001, rec_2023002]"
    by (simp add: dedupe_and_sort_def rec_2023002_def rec_2023001_def rec_no_issue_def)
  with out have "map issue out = [''2023001'', ''2023002'']"
    by (simp add: rec_2023002_def rec_2023001_def)
  with out srt show ?thesis by (intro exI [of _ out]) simp
qed

text \<open>
  C7. The merger is idempotent: it returns a list for every input, and on that list it
  returns the same list again.
\<close>

theorem dedupe_and_sort_idempotent:
  "\<exists>out. dedupe_and_sort rs = Inr out \<and> dedupe_and_sort out = Inr out"
  by (simp add: dedupe_and_sort_merged merged_idem)

theorem dedupe_and_sort_idempotent_witness:
  "dedupe_and_sort [rec_2023002, rec_2023001, rec_no_issue, rec_2023002_late]
     = Inr [rec_2023001, rec_2023002_late] \<and>
   dedupe_and_sort [rec_2023001, rec_2023002_late] = Inr [rec_2023001, rec_2023002_late]"
proof -
  from dedupe_and_sort_idempotent [of "[rec_2023002, rec_2023001, rec_no_issue, rec_2023002_late]"]
  obtain out where
    out: "dedupe_and_sort [rec_2023002, rec_2023001, rec_no_issue, rec_2023002_late] = Inr out" and
    idem: "dedupe_and_sort out = Inr out"
    by blast
  have "dedupe_and_sort [rec_2023002, rec_2023001, rec_no_issue, rec_2023002_late]
          = Inr [rec_2023001, rec_2023002_late]"
    by (simp add: dedupe_and_sort_def rec_2023002_def rec_2023001_def rec_no_issue_def
          rec_2023002_late_def)
  with out idem show ?thesis by simp
qed

text \<open>
  C10. For every input sequence, every record of the merger's output is an element of the
  input, and the issues of the output are strictly increasing, hence pairwise distinct.
\<close>

theorem dedupe_and_sort_selects:
  "\<exists>out. dedupe_and_sort rs = Inr out \<and> set out \<subseteq> set rs \<and>
     sorted_wrt (<) (map issue out) \<and> distinct (map issue out)"
  by (simp add: dedupe_and_sort_merged merged_subset strict_sorted_iff merged_sorted
        merged_distinct)

theorem dedupe_and_sort_selects_witness:
  "\<exists>out. dedupe_and_sort [rec_2023002_late, rec_2023001, rec_2023002] = Inr out \<and>
     out = [rec_2023001, rec_2023002] \<and>
     set out \<subseteq> set [rec_2023002_late, rec_2023001, rec_2023002] \<and>
     sorted_wrt (<) (map issue out) \<and> distinct (map issue out)"
proof -
  from dedupe_and_sort_selects [of "[rec_2023002_late, rec_2023001, rec_2023002]"]
  obtain out where
    out: "dedupe_and_sort [rec_2023002_late, rec_2023001, rec_2023002] = Inr out" and
    rest: "set out \<subseteq> set [rec_2023002_late, rec_2023001, rec_2023002]"
      "sorted_wrt (<) (map issue out)" "distinct (map issue out)"
    by blast
  have "dedupe_and_sort [rec_2023002_late, rec_2023001, rec_2023002]
          = Inr [rec_2023001, rec_2023002]"
    by (simp add: dedupe_and_sort_def rec_2023002_def rec_2023001_def rec_2023002_late_def)
  with out have "out = [rec_2023001, rec_2023002]" by simp
  with out rest show ?thesis by (intro exI [of _ out]) simp
qed

section \<open>The claims about the orchestrator\<close>

lemma dedupe_and_sort_Nil: "dedupe_and_sort [] = Inr []"
  by (simp add: dedupe_and_sort_def)

lemma merged_eq_Nil_iff: "merged rs = [] \<longleftrightarrow> (\<forall>r \<in> set rs. issue r = [])"
proof -
  have keys: "set (map issue (merged rs)) = fst ` set (by_issue_loop rs [])"
    unfolding merged_issues by simp
  have "merged rs = [] \<longleftrightarrow> set (map issue (merged rs)) = {}" by simp
  also have "\<dots> \<longleftrightarrow> (\<forall>r \<in> set rs. issue r = [])"
    unfolding keys by (auto simp: by_issue_loop_keys)
  finally show ?thesis .
qed

text \<open>
  C9. When the \<open>requests\<close> library is available, a run that is not a self-test and has
  \<open>--source cwl\<close> calls no fetcher at all, collects no record, prints the diagnostic to
  the error stream and returns exit code 2.
\<close>

theorem main_cwl_with_requests:
  assumes "requests w" and "\<not> selftest a" and "source a = SourceCwl"
  shows "collect w a = \<lparr>all_records = [], called = []\<rparr> \<and>
         main w a = \<lparr>outcome = Returned 2, stdout = [], stderr = [No_records_fetched], calls = []\<rparr> \<and>
         exit_status (outcome (main w a)) = 2"
proof -
  from assms have c: "collect w a = \<lparr>all_records = [], called = []\<rparr>"
    by (simp add: collect_def main_sporttery_def main_500_def main_cwl_def)
  with assms(2) show ?thesis
    by (simp add: main_def dedupe_and_sort_Nil)
qed

theorem main_cwl_with_requests_witness:
  "requests world_requests \<and> \<not> selftest (args_default\<lparr>source := SourceCwl\<rparr>) \<and>
   fetch_from_cwl_with_urllib_out world_requests (issue_count args_default) = Inr [rec_2023001] \<and>
   calls (main world_requests (args_default\<lparr>source := SourceCwl\<rparr>)) = [] \<and>
   exit_status (outcome (main world_requests (args_default\<lparr>source := SourceCwl\<rparr>))) = 2"
  using main_cwl_with_requests [of world_requests "args_default\<lparr>source := SourceCwl\<rparr>"]
  by (simp add: world_requests_def args_default_def)

text \<open>
  C8, as amended. In a run that is not a self-test the exit status is 2 exactly when the
  merged collection is empty, and then the diagnostic goes to the error stream. When the
  merged collection is not empty and the output path has a directory part, \<open>main\<close>
  returns 0 if writing the output file raises no exception; if it raises, the exception
  leaves \<open>main\<close> and the exit status is 1. A self-test run with such an output path
  returns 0 under the same condition on the writing of its file.
\<close>

theorem main_exit_code:
  "(\<not> selftest a \<longrightarrow>
      (exit_status (outcome (main w a)) = 2 \<longleftrightarrow>
         dedupe_and_sort (all_records (collect w a)) = Inr []) \<and>
      (dedupe_and_sort (all_records (collect w a)) = Inr [] \<longrightarrow>
         outcome (main w a) = Returned 2 \<and> stderr (main w a) = [No_records_fetched]) \<and>
      (\<forall>final. dedupe_and_sort (all_records (collect w a)) = Inr final \<and> final \<noteq> [] \<and>
               dirname (args_output a) \<noteq> [] \<longrightarrow>
         (case save_to_csv w final (args_output a) of
            None \<Rightarrow> outcome (main w a) = Returned 0 \<and> exit_status (outcome (main w a)) = 0
          | Some e \<Rightarrow> outcome (main w a) = Raised e \<and> exit_status (outcome (main w a)) = 1))) \<and>
   (selftest a \<and> dirname (args_output a) \<noteq> [] \<longrightarrow>
      (\<forall>final. dedupe_and_sort ([selftest_sporttery_record (py_repr w)] @
                   parse_500_history_html (BeautifulSoup w) sample_500_html) = Inr final \<longrightarrow>
         (case save_to_csv w final (args_output a) of
            None \<Rightarrow> outcome (main w a) = Returned 0 \<and> exit_status (outcome (main w a)) = 0
          | Some e \<Rightarrow> outcome (main w a) = Raised e \<and> exit_status (outcome (main w a)) = 1)))"
proof (cases "selftest a")
  case True
  then show ?thesis
    by (auto simp: main_def run_selftest_def Let_def split: option.splits sum.splits)
next
  case False
  obtain final where f: "dedupe_and_sort (all_records (collect w a)) = Inr final"
    using dedupe_and_sort_merged by blast
  show ?thesis
  proof (cases "final = []")
    case True
    with False f show ?thesis by (simp add: main_def Let_def)
  next
    case ne: False
    with False f show ?thesis
      by (cases "save_to_csv w final (args_output a)") (simp_all add: main_def Let_def)
  qed
qed

theorem main_exit_code_witness:
  "\<not> selftest args_sporttery \<and>
   dirname (args_output args_sporttery) = ''/workspace/data'' \<and>
   dedupe_and_sort (all_records (collect world_requests args_sporttery)) = Inr [rec_2023001] \<and>
   exit_status (outcome (main world_requests args_sporttery)) = 0 \<and>
   selftest (args_default\<lparr>selftest := True\<rparr>) \<and>
   exit_status (outcome (main world_requests (args_default\<lparr>selftest := True\<rparr>))) = 0"
proof -
  let ?a = "args_sporttery"
  let ?s = "args_default\<lparr>selftest := True\<rparr>"
  have n: "\<not> selftest ?a" and s: "selftest ?s"
    by (simp_all add: args_sporttery_def args_default_def)
  have p: "dirname (args_output ?a) = ''/workspace/data''"
    "dirname (args_output ?s) = ''/workspace/data''"
    by (simp_all add: args_sporttery_def args_default_def dirname_def)
  have c: "all_records (collect world_requests ?a) = [rec_2023001]"
    by (simp add: collect_def main_sporttery_def main_500_def main_cwl_def try_extend_def
          world_requests_def args_sporttery_def args_default_def)
  have d: "dedupe_and_sort (all_records (collect world_requests ?a)) = Inr [rec_2023001]"
    unfolding c by (simp add: dedupe_and_sort_def rec_2023001_def)
  have sv: "save_to_csv world_requests rs path = None" for rs path
    by (simp add: save_to_csv_def world_requests_def)
  from main_exit_code [of ?a world_requests] n d sv p
  have "exit_status (outcome (main world_requests ?a)) = 0" by simp
  moreover from main_exit_code [of ?s world_requests] s sv p dedupe_and_sort_merged
  have "exit_status (outcome (main world_requests ?s)) = 0" by simp
  ultimately show ?thesis using n s d p by simp
qed

text \<open>
  C8 as stated fails where the sink raises. The output path is the default one, whose
  directory exists; opening the file raises \<open>PermissionError\<close>, nothing in \<open>main\<close> or
  \<open>run_selftest\<close> catches it, and a run with one merged record ends with exit status 1
  instead of 0. So does the self-test.
\<close>

theorem main_exit_code_counterexample:
  "\<not> selftest args_sporttery \<and>
   dirname (args_output args_sporttery) = ''/workspace/data'' \<and>
   makedirs world_read_only (dirname (args_output args_sporttery)) = None \<and>
   dedupe_and_sort (all_records (collect world_read_only args_sporttery)) = Inr [rec_2023001] \<and>
   outcome (main world_read_only args_sporttery) = Raised PermissionError \<and>
   exit_status (outcome (main world_read_only args_sporttery)) = 1 \<and>
   selftest (args_sporttery\<lparr>selftest := True\<rparr>) \<and>
   outcome (main world_read_only (args_sporttery\<lparr>selftest := True\<rparr>)) = Raised PermissionError \<and>
   exit_status (outcome (main world_read_only (args_sporttery\<lparr>selftest := True\<rparr>))) = 1"
proof -
  have c: "all_records (collect world_read_only args_sporttery) = [rec_2023001]"
    by (simp add: collect_def main_sporttery_def main_500_def main_cwl_def try_extend_def
          world_read_only_def world_requests_def args_sporttery_def args_default_def)
  have d: "dedupe_and_sort (all_records (collect world_read_only args_sporttery)) = Inr [rec_2023001]"
    unfolding c by (simp add: dedupe_and_sort_def rec_2023001_def)
  have o: "args_output args_sporttery = ''/workspace/data/ssq_history.csv''"
    "\<not> selftest args_sporttery"
    by (simp_all add: args_sporttery_def args_default_def)
  have p: "dirname ''/workspace/data/ssq_history.csv'' = ''/workspace/data''"
    by (simp add: dirname_def)
  have mk: "makedirs world_read_only q = None" for q
    by (simp add: world_read_only_def world_requests_def)
  have sv: "save_to_csv world_read_only rs path = Some PermissionError" for rs path
    by (simp add: save_to_csv_def world_read_only_def world_requests_def)
  have m1: "outcome (main world_read_only args_sporttery) = Raised PermissionError"
    by (simp add: main_def Let_def d o sv)
  have m2: "outcome (main world_read_only (args_sporttery\<lparr>selftest := True\<rparr>))
              = Raised PermissionError"
    by (simp add: main_def run_selftest_def Let_def dedupe_and_sort_merged o sv)
  show ?thesis using d o p mk m1 m2 by simp
qed

text \<open>
  The case that the statement above leaves out. For an output path without a directory
  part, such as \<open>out.csv\<close>, \<open>os.path.dirname\<close> is empty and \<open>os.makedirs\<close> raises
  \<open>FileNotFoundError\<close> on the empty path, although the file could be written: the line
  that is to create a missing output directory ends the run with exit status 1, in
  normal operation and in the self-test.
\<close>

lemma save_to_csv_bare_file_name:
  "dirname ''out.csv'' = [] \<and>
   save_to_csv world_no_dir rs ''out.csv'' = Some FileNotFoundError \<and>
   save_to_csv world_no_dir rs ''./out.csv'' = None"
  by (simp add: save_to_csv_def world_no_dir_def world_requests_def dirname_def)

lemma main_bare_file_name:
  "\<not> selftest args_out_csv \<and>
   dedupe_and_sort (all_records (collect world_no_dir args_out_csv)) = Inr [rec_2023001] \<and>
   outcome (main world_no_dir args_out_csv) = Raised FileNotFoundError \<and>
   exit_status (outcome (main world_no_dir args_out_csv)) = 1 \<and>
   selftest (args_out_csv\<lparr>selftest := True\<rparr>) \<and>
   outcome (main world_no_dir (args_out_csv\<lparr>selftest := True\<rparr>)) = Raised FileNotFoundError \<and>
   exit_status (outcome (main world_no_dir (args_out_csv\<lparr>selftest := True\<rparr>))) = 1"
proof -
  have c: "all_records (collect world_no_dir args_out_csv) = [rec_2023001]"
    by (simp add: collect_def main_sporttery_def main_500_def main_cwl_def try_extend_def
          world_no_dir_def world_requests_def args_out_csv_def args_default_def)
  have d: "dedupe_and_sort (all_records (collect world_no_dir args_out_csv)) = Inr [rec_2023001]"
    unfolding c by (simp add: dedupe_and_sort_def rec_2023001_def)
  have sv: "save_to_csv world_no_dir rs ''out.csv'' = Some FileNotFoundError" for rs
    by (simp add: save_to_csv_def world_no_dir_def world_requests_def dirname_def)
  have o: "args_output args_out_csv = ''out.csv''" "\<not> selftest args_out_csv"
    by (simp_all add: args_out_csv_def args_default_def)
  have m1: "outcome (main world_no_dir args_out_csv) = Raised FileNotFoundError"
    by (simp add: main_def Let_def d o sv)
  have m2: "outcome (main world_no_dir (args_out_csv\<lparr>selftest := True\<rparr>)) = Raised FileNotFoundError"
    by (simp add: main_def run_selftest_def Let_def dedupe_and_sort_merged o sv)
  show ?thesis using d o m1 m2 by simp
qed

end
